theory Spec2Isabelle
  imports Main "HOL-Library.Word"
begin

unbundle bit_operations_syntax

section \<open>JavaScript values shared by the modules\<close>

text \<open>
  A JavaScript string is modelled by \<^typ>\<open>string\<close>, the bytes of its UTF-8 encoding; every
  character the code below tests for (double quote, equals sign, word characters, the
  base64 alphabet, white space) is ASCII, a single byte. An exception is a value of
  \<open>js_error\<close> carrying its message; a function that may throw returns \<open>js_error + 'a\<close>.
\<close>

datatype js_error = TypeError string | URIError string | Error string | PayloadDependent

fun error_message :: "js_error \<Rightarrow> string" where
  "error_message (TypeError m) = m"
| "error_message (URIError m) = m"
| "error_message (Error m) = m"
| "error_message PayloadDependent = []"

section \<open>The transaction store (store.js)\<close>

text \<open>
  One transaction record, as \<open>createTransaction\<close> builds it. The payloads are opaque
  (\<open>'p\<close>); the timestamps are the strings \<open>new Date().toISOString()\<close> returned, passed in
  by the caller of the model.
\<close>

record 'p transaction =
  transactionId :: string
  messageId :: string
  status :: string
  search :: 'p
  catalogs :: "'p list"
  selections :: "'p list"
  initResults :: "'p list"
  statusResults :: "'p list"
  errors :: "'p list"
  createdAt :: string
  updatedAt :: string

text \<open>
  \<open>store.transactions\<close> is the object literal \<open>{}\<close>: its own properties (\<open>transactions\<close>)
  and its prototype. The prototype is \<open>Object.prototype\<close> (\<open>None\<close>) until an assignment
  under the key \<open>__proto__\<close> replaces it by the assigned record (\<open>Some\<close>): that assignment
  runs the inherited setter and adds no own property.
\<close>

record 'p store =
  transactions :: "string \<rightharpoonup> 'p transaction"
  transactions_proto :: "'p transaction option"

text \<open>
  What a property read \<open>store.transactions[id]\<close> can yield: nothing, a transaction record,
  a string or an array (a field of a record that became the prototype), a payload (its
  \<open>search\<close> field), or a built-in of \<open>Object.prototype\<close> (a function, or for \<open>__proto__\<close>
  that object itself). \<open>Null\<close> is what \<open>getTransaction\<close> returns for a falsy read.
\<close>

datatype 'p js_value =
  Undefined | Null | Txn "'p transaction" | Str string | Arr "'p list" | Payload 'p | Builtin

definition Object_prototype_names :: "string list" where
  "Object_prototype_names =
     [''constructor'', ''__defineGetter__'', ''__defineSetter__'', ''hasOwnProperty'',
      ''__lookupGetter__'', ''__lookupSetter__'', ''isPrototypeOf'', ''propertyIsEnumerable'',
      ''toString'', ''valueOf'', ''__proto__'', ''toLocaleString'']"

definition Object_prototype_get :: "string \<Rightarrow> 'p js_value" where
  "Object_prototype_get k = (if k \<in> set Object_prototype_names then Builtin else Undefined)"

definition transaction_get :: "'p transaction \<Rightarrow> string \<Rightarrow> 'p js_value" where
  "transaction_get t k =
     (if k = ''transactionId'' then Str (transactionId t)
      else if k = ''messageId'' then Str (messageId t)
      else if k = ''status'' then Str (status t)
      else if k = ''search'' then Payload (search t)
      else if k = ''catalogs'' then Arr (catalogs t)
      else if k = ''selections'' then Arr (selections t)
      else if k = ''initResults'' then Arr (initResults t)
      else if k = ''statusResults'' then Arr (statusResults t)
      else if k = ''errors'' then Arr (errors t)
      else if k = ''createdAt'' then Str (createdAt t)
      else if k = ''updatedAt'' then Str (updatedAt t)
      else Object_prototype_get k)"

text \<open>The read \<open>store.transactions[k]\<close>: own property first, then the prototype chain.\<close>

definition transactions_get :: "'p store \<Rightarrow> string \<Rightarrow> 'p js_value" where
  "transactions_get s k =
     (case transactions s k of
        Some t \<Rightarrow> Txn t
      | None \<Rightarrow>
          (case transactions_proto s of
             None \<Rightarrow> Object_prototype_get k
           | Some r \<Rightarrow> if k = ''__proto__'' then Txn r else transaction_get r k))"

text \<open>The write \<open>store.transactions[k] = t\<close>.\<close>

definition transactions_set :: "'p store \<Rightarrow> string \<Rightarrow> 'p transaction \<Rightarrow> 'p store" where
  "transactions_set s k t =
     (if k = ''__proto__'' \<and> transactions s k = None
      then s\<lparr>transactions_proto := Some t\<rparr>
      else s\<lparr>transactions := (transactions s)(k \<mapsto> t)\<rparr>)"

definition createTransaction ::
  "string \<Rightarrow> string \<Rightarrow> 'p \<Rightarrow> string \<Rightarrow> string \<Rightarrow> 'p store \<Rightarrow> 'p js_value \<times> 'p store" where
  "createTransaction tid mid searchPayload now1 now2 s =
     (let s' = transactions_set s tid
                 \<lparr>transactionId = tid, messageId = mid, status = ''searching'',
                  search = searchPayload, catalogs = [], selections = [], initResults = [],
                  statusResults = [], errors = [], createdAt = now1, updatedAt = now2\<rparr>
      in (transactions_get s' tid, s'))"

text \<open>\<open>!v\<close> for the values a read can yield; a payload's truth value is not known here.\<close>

fun falsy :: "'p js_value \<Rightarrow> bool" where
  "falsy Undefined = True"
| "falsy Null = True"
| "falsy (Str v) = (v = [])"
| "falsy _ = False"

definition getTransaction :: "string \<Rightarrow> 'p store \<Rightarrow> 'p js_value" where
  "getTransaction tid s = (let v = transactions_get s tid in if falsy v then Null else v)"

text \<open>
  The common shape of the five \<open>add*\<close> functions: read the record, return \<open>null\<close> when the
  read is falsy, otherwise mutate the object that was read, in place. \<open>upd\<close> is the body
  after the guard. A read that yields something other than a record has no array under
  the field the body pushes to, and \<open>undefined.push\<close> throws a TypeError; for a payload the
  outcome depends on the payload's own properties and is left open (\<open>PayloadDependent\<close>).
\<close>

definition add_data ::
  "('p transaction \<Rightarrow> 'p transaction) \<Rightarrow> string \<Rightarrow> 'p store
     \<Rightarrow> (js_error + 'p js_value) \<times> 'p store" where
  "add_data upd tid s =
     (case transactions_get s tid of
        Txn t \<Rightarrow>
          (let t' = upd t;
               s' = (if transactions s tid = None then s\<lparr>transactions_proto := Some t'\<rparr>
                     else s\<lparr>transactions := (transactions s)(tid \<mapsto> t')\<rparr>)
           in (Inr (Txn t'), s'))
      | Payload p \<Rightarrow> (Inl PayloadDependent, s)
      | v \<Rightarrow>
          if falsy v then (Inr Null, s)
          else (Inl (TypeError (''Cannot read properties of undefined (reading 'push')'')), s))"

definition addCatalogData ::
  "string \<Rightarrow> 'p \<Rightarrow> string \<Rightarrow> 'p store \<Rightarrow> (js_error + 'p js_value) \<times> 'p store" where
  "addCatalogData tid catalogData now =
     add_data
       (\<lambda>t. t\<lparr>catalogs := catalogs t @ [catalogData], status := ''results_ready'',
               updatedAt := now\<rparr>) tid"

definition addSelectData ::
  "string \<Rightarrow> 'p \<Rightarrow> string \<Rightarrow> 'p store \<Rightarrow> (js_error + 'p js_value) \<times> 'p store" where
  "addSelectData tid selectData now =
     add_data
       (\<lambda>t. t\<lparr>selections := selections t @ [selectData], status := ''selected'',
               updatedAt := now\<rparr>) tid"

definition addInitData ::
  "string \<Rightarrow> 'p \<Rightarrow> string \<Rightarrow> 'p store \<Rightarrow> (js_error + 'p js_value) \<times> 'p store" where
  "addInitData tid initData now =
     add_data
       (\<lambda>t. t\<lparr>initResults := initResults t @ [initData], status := ''initialized'',
               updatedAt := now\<rparr>) tid"

definition addStatusData ::
  "string \<Rightarrow> 'p \<Rightarrow> string \<Rightarrow> 'p store \<Rightarrow> (js_error + 'p js_value) \<times> 'p store" where
  "addStatusData tid statusData now =
     add_data
       (\<lambda>t. t\<lparr>statusResults := statusResults t @ [statusData], updatedAt := now\<rparr>) tid"

definition addErrorData ::
  "string \<Rightarrow> 'p \<Rightarrow> string \<Rightarrow> 'p store \<Rightarrow> (js_error + 'p js_value) \<times> 'p store" where
  "addErrorData tid errorData now =
     add_data
       (\<lambda>t. t\<lparr>errors := errors t @ [errorData], status := ''error'', updatedAt := now\<rparr>) tid"

text \<open>\<open>clearAll\<close> assigns a fresh \<open>{}\<close>; the module starts in the same state.\<close>

definition clearAll :: "'p store \<Rightarrow> 'p store" where
  "clearAll s = \<lparr>transactions = Map.empty, transactions_proto = None\<rparr>"

definition initial_store :: "'p store" where
  "initial_store = \<lparr>transactions = Map.empty, transactions_proto = None\<rparr>"

text \<open>
  \<open>module.exports\<close> of the store: the names it binds. The five \<open>add*\<close> functions share a
  type and are kept as functions; the other exports are only recorded as present.
\<close>

datatype 'p store_export =
  Fn_add "string \<Rightarrow> 'p \<Rightarrow> string \<Rightarrow> 'p store \<Rightarrow> (js_error + 'p js_value) \<times> 'p store"
  | Export_other

definition store_module :: "string \<Rightarrow> 'p store_export option" where
  "store_module name =
     (if name = ''store'' then Some Export_other
      else if name = ''createTransaction'' then Some Export_other
      else if name = ''getTransaction'' then Some Export_other
      else if name = ''addCatalogData'' then Some (Fn_add addCatalogData)
      else if name = ''addSelectData'' then Some (Fn_add addSelectData)
      else if name = ''addInitData'' then Some (Fn_add addInitData)
      else if name = ''addStatusData'' then Some (Fn_add addStatusData)
      else if name = ''addErrorData'' then Some (Fn_add addErrorData)
      else if name = ''getAllTransactionIds'' then Some Export_other
      else if name = ''clearAll'' then Some Export_other
      else None)"

section \<open>The callback handlers of on\_confirm.js and on\_cancel.js\<close>

text \<open>
  The last handler of each route, after the two middlewares. \<open>tid\<close> is
  \<open>context.transaction_id\<close> (the empty string stands for a missing one), \<open>payload\<close> the
  object \<open>{context, message}\<close>. The handler calls \<open>store.addConfirmData\<close> only when the
  store module binds that name, and takes \<open>null\<close> for the record otherwise.
\<close>

datatype ack = ACK | NACK string string

definition store_call ::
  "string \<Rightarrow> string \<Rightarrow> 'p \<Rightarrow> string \<Rightarrow> 'p store \<Rightarrow> (js_error + 'p js_value) \<times> 'p store" where
  "store_call name tid payload now s =
     (case store_module name of
        None \<Rightarrow> (Inr Null, s)
      | Some (Fn_add f) \<Rightarrow> f tid payload now s
      | Some Export_other \<Rightarrow> (Inl (TypeError (''store.'' @ name @ '' is not a function'')), s))"

definition callback_handler ::
  "string \<Rightarrow> string \<Rightarrow> 'p \<Rightarrow> string \<Rightarrow> 'p store \<Rightarrow> (js_error + ack) \<times> 'p store" where
  "callback_handler name tid payload now s =
     (if tid = [] then (Inr (NACK ''400'' ''Missing transaction_id''), s)
      else
        (case store_call name tid payload now s of
           (Inl e, s') \<Rightarrow> (Inl e, s')
         | (Inr txn, s') \<Rightarrow>
             if falsy txn
             then (Inr (NACK ''404'' ''Transaction not found or server error''), s')
             else (Inr ACK, s')))"

definition on_confirm_handler ::
  "string \<Rightarrow> 'p \<Rightarrow> string \<Rightarrow> 'p store \<Rightarrow> (js_error + ack) \<times> 'p store" where
  "on_confirm_handler = callback_handler ''addConfirmData''"

definition on_cancel_handler ::
  "string \<Rightarrow> 'p \<Rightarrow> string \<Rightarrow> 'p store \<Rightarrow> (js_error + ack) \<times> 'p store" where
  "on_cancel_handler = callback_handler ''addCancelData''"

section \<open>Bytes and base64 (tweetnacl-util)\<close>

type_synonym byte = "8 word"

definition octet :: "nat \<Rightarrow> byte" where
  "octet n = of_nat n"

text \<open>
  A typed array of fixed length \<open>n\<close> filled from \<open>xs\<close>: what does not fit is dropped, what
  is missing stays zero.
\<close>

definition fit :: "nat \<Rightarrow> byte list \<Rightarrow> byte list" where
  "fit n xs = take n (xs @ replicate n 0)"

text \<open>\<open>decodeUTF8\<close>: the bytes of the UTF-8 encoding of a string.\<close>

definition decodeUTF8 :: "string \<Rightarrow> byte list" where
  "decodeUTF8 s = map (\<lambda>c. octet (of_char c)) s"

text \<open>The base64 alphabet \<open>A-Z a-z 0-9 + /\<close>: the character of a sextet and back.\<close>

definition base64_char :: "nat \<Rightarrow> char" where
  "base64_char n =
     (if n < 26 then char_of (65 + n)
      else if n < 52 then char_of (71 + n)
      else if n < 62 then char_of (n - 4)
      else if n = 62 then CHR ''+'' else CHR ''/'')"

definition is_base64_char :: "char \<Rightarrow> bool" where
  "is_base64_char c =
     (let n = (of_char c :: nat) in
      (65 \<le> n \<and> n \<le> 90) \<or> (97 \<le> n \<and> n \<le> 122) \<or> (48 \<le> n \<and> n \<le> 57)
      \<or> c = CHR ''+'' \<or> c = CHR ''/'')"

definition base64_value :: "char \<Rightarrow> nat" where
  "base64_value c =
     (let n = (of_char c :: nat) in
      if 65 \<le> n \<and> n \<le> 90 then n - 65
      else if 97 \<le> n \<and> n \<le> 122 then n - 71
      else if 48 \<le> n \<and> n \<le> 57 then n + 4
      else if c = CHR ''+'' then 62 else 63)"

fun encodeBase64 :: "byte list \<Rightarrow> string" where
  "encodeBase64 [] = []"
| "encodeBase64 [a] =
     [base64_char (unat a div 4), base64_char (unat a mod 4 * 16), CHR ''='', CHR ''='']"
| "encodeBase64 [a, b] =
     [base64_char (unat a div 4), base64_char (unat a mod 4 * 16 + unat b div 16),
      base64_char (unat b mod 16 * 4), CHR ''='']"
| "encodeBase64 (a # b # c # rest) =
     [base64_char (unat a div 4), base64_char (unat a mod 4 * 16 + unat b div 16),
      base64_char (unat b mod 16 * 4 + unat c div 64), base64_char (unat c mod 64)]
     @ encodeBase64 rest"

text \<open>
  \<open>validateBase64\<close> is the regular expression of tweetnacl-util,
  \<^verbatim>\<open>^(?:[A-Za-z0-9+/]{2}[A-Za-z0-9+/]{2})*(?:[A-Za-z0-9+/]{2}==|[A-Za-z0-9+/]{3}=)?$\<close>:
  groups of four alphabet characters, the last one possibly padded.
\<close>

fun validateBase64 :: "string \<Rightarrow> bool" where
  "validateBase64 [] = True"
| "validateBase64 (a # b # c # d # rest) =
     (is_base64_char a \<and> is_base64_char b \<and>
      (if rest = []
       then (is_base64_char c \<and> is_base64_char d) \<or> (c = CHR ''='' \<and> d = CHR ''='')
            \<or> (is_base64_char c \<and> d = CHR ''='')
       else is_base64_char c \<and> is_base64_char d \<and> validateBase64 rest))"
| "validateBase64 _ = False"

fun base64_bytes :: "string \<Rightarrow> byte list" where
  "base64_bytes (a # b # c # d # rest) =
     (let v1 = base64_value a; v2 = base64_value b; v3 = base64_value c; v4 = base64_value d
      in if c = CHR ''='' then [octet (v1 * 4 + v2 div 16)]
         else if d = CHR ''=''
         then [octet (v1 * 4 + v2 div 16), octet (v2 mod 16 * 16 + v3 div 4)]
         else [octet (v1 * 4 + v2 div 16), octet (v2 mod 16 * 16 + v3 div 4),
               octet (v3 mod 4 * 64 + v4)] @ base64_bytes rest)"
| "base64_bytes _ = []"

definition decodeBase64 :: "string \<Rightarrow> js_error + byte list" where
  "decodeBase64 s =
     (if validateBase64 s then Inr (base64_bytes s) else Inl (TypeError ''invalid encoding''))"

section \<open>Signing and verification (crypto/sign.js, crypto/verify.js)\<close>

text \<open>
  The primitives the code takes from tweetnacl and from Node's \<open>crypto\<close>, as parameters:
  Ed25519 key generation from the random bytes it draws, signing (message, secret key),
  verification (message, signature, public key), and the SHA-256 hash.
\<close>

record primitives =
  ed25519_keypair :: "byte list \<Rightarrow> byte list \<times> byte list"
  ed25519_sign :: "byte list \<Rightarrow> byte list \<Rightarrow> byte list"
  ed25519_verify :: "byte list \<Rightarrow> byte list \<Rightarrow> byte list \<Rightarrow> bool"
  sha256 :: "byte list \<Rightarrow> byte list"

text \<open>
  The wrappers of tweetnacl around the primitives: \<open>nacl.sign.keyPair\<close> allocates a public
  key of 32 and a secret key of 64 bytes; \<open>nacl.sign.detached\<close> rejects a secret key that
  is not 64 bytes long and returns the 64 bytes of the signature;
  \<open>nacl.sign.detached.verify\<close> rejects a signature that is not 64 and a public key that is
  not 32 bytes long.
\<close>

definition nacl_sign_keyPair :: "primitives \<Rightarrow> byte list \<Rightarrow> byte list \<times> byte list" where
  "nacl_sign_keyPair prim random =
     (case ed25519_keypair prim random of (pk, sk) \<Rightarrow> (fit 32 pk, fit 64 sk))"

definition nacl_sign_detached ::
  "primitives \<Rightarrow> byte list \<Rightarrow> byte list \<Rightarrow> js_error + byte list" where
  "nacl_sign_detached prim msg secretKey =
     (if length secretKey \<noteq> 64 then Inl (Error ''bad secret key size'')
      else Inr (fit 64 (ed25519_sign prim msg secretKey)))"

definition nacl_sign_detached_verify ::
  "primitives \<Rightarrow> byte list \<Rightarrow> byte list \<Rightarrow> byte list \<Rightarrow> js_error + bool" where
  "nacl_sign_detached_verify prim msg sig pk =
     (if length sig \<noteq> 64 then Inl (Error ''bad signature size'')
      else if length pk \<noteq> 32 then Inl (Error ''bad public key size'')
      else Inr (ed25519_verify prim msg sig pk))"

record key_pair =
  publicKey :: string
  privateKey :: string

definition generateKeyPair :: "primitives \<Rightarrow> byte list \<Rightarrow> key_pair" where
  "generateKeyPair prim random =
     (case nacl_sign_keyPair prim random of
        (pk, sk) \<Rightarrow> \<lparr>publicKey = encodeBase64 pk, privateKey = encodeBase64 sk\<rparr>)"

definition sign :: "primitives \<Rightarrow> string \<Rightarrow> string \<Rightarrow> js_error + string" where
  "sign prim message privateKeyBase64 =
     (case decodeBase64 privateKeyBase64 of
        Inl e \<Rightarrow> Inl e
      | Inr privateKeyBytes \<Rightarrow>
          (case nacl_sign_detached prim (decodeUTF8 message) privateKeyBytes of
             Inl e \<Rightarrow> Inl e
           | Inr signatureBytes \<Rightarrow> Inr (encodeBase64 signatureBytes)))"

text \<open>\<open>try { ... } catch (err) { ... }\<close>: the handler takes over when the body throws.\<close>

definition try_catch :: "js_error + 'a \<Rightarrow> (js_error \<Rightarrow> js_error + 'a) \<Rightarrow> js_error + 'a" where
  "try_catch body handler = (case body of Inl e \<Rightarrow> handler e | Inr v \<Rightarrow> Inr v)"

definition verify :: "primitives \<Rightarrow> string \<Rightarrow> string \<Rightarrow> string \<Rightarrow> js_error + bool" where
  "verify prim message signatureBase64 publicKeyBase64 =
     try_catch
       (case decodeBase64 publicKeyBase64 of
          Inl e \<Rightarrow> Inl e
        | Inr publicKeyBytes \<Rightarrow>
            (case decodeBase64 signatureBase64 of
               Inl e \<Rightarrow> Inl e
             | Inr signatureBytes \<Rightarrow>
                 nacl_sign_detached_verify prim (decodeUTF8 message) signatureBytes
                   publicKeyBytes))
       (\<lambda>err. Inr False)"

text \<open>
  What the code relies on from the library: a signature made with the secret key of a
  generated pair verifies under the public key of that pair.
\<close>

definition ed25519_correct :: "primitives \<Rightarrow> bool" where
  "ed25519_correct prim =
     (\<forall>random msg.
        ed25519_verify prim msg
          (fit 64 (ed25519_sign prim msg (snd (nacl_sign_keyPair prim random))))
          (fst (nacl_sign_keyPair prim random)))"

text \<open>
  A stand-in for the primitives, used only to show that the contract above can be met
  and to run the code on concrete inputs: the secret key is the public key twice, a
  signature is the public key followed by the message, cut to 64 bytes.
\<close>

definition toy_primitives :: primitives where
  "toy_primitives =
     \<lparr>ed25519_keypair = (\<lambda>random. (fit 32 random, fit 32 random @ fit 32 random)),
      ed25519_sign = (\<lambda>msg sk. take 32 sk @ msg),
      ed25519_verify = (\<lambda>msg sig pk. sig = fit 64 (pk @ msg)),
      sha256 = fit 32\<rparr>"

section \<open>Numbers, JSON text and the process environment\<close>

text \<open>
  The numbers the code handles are the second counts it computes and what \<open>parseInt\<close>
  returns: an integer or \<open>NaN\<close>. (Beyond \<open>2^53\<close> JavaScript rounds; that range is not
  modelled.) \<open>Number_toString\<close> is the decimal text a template literal inserts.
\<close>

datatype js_number = NaN | Num int

definition digit_char :: "nat \<Rightarrow> char" where
  "digit_char n = char_of (48 + n)"

fun show_nat :: "nat \<Rightarrow> string" where
  "show_nat n = (if n < 10 then [digit_char n] else show_nat (n div 10) @ [digit_char (n mod 10)])"

declare show_nat.simps [simp del]

fun Number_toString :: "js_number \<Rightarrow> string" where
  "Number_toString NaN = ''NaN''"
| "Number_toString (Num i) = (if i < 0 then CHR ''-'' # show_nat (nat (- i)) else show_nat (nat i))"

text \<open>\<open>a > b\<close> on numbers: false as soon as one side is \<open>NaN\<close>.\<close>

fun js_greater :: "js_number \<Rightarrow> js_number \<Rightarrow> bool" where
  "js_greater (Num a) (Num b) = (a > b)"
| "js_greater _ _ = False"

text \<open>
  \<open>parseInt(s, 10)\<close>: leading white space is skipped (the white space and line
  terminator characters of ECMAScript, here by their UTF-8 bytes), then an optional sign,
  then the longest run of decimal digits; no digit gives \<open>NaN\<close>.
\<close>

definition whitespace_length :: "string \<Rightarrow> nat" where
  "whitespace_length s =
     (if s = [] then 0
      else if hd s \<in> set [CHR 0x09, CHR 0x0A, CHR 0x0B, CHR 0x0C, CHR 0x0D, CHR 0x20] then 1
      else if take 2 s = [CHR 0xC2, CHR 0xA0] then 2
      else if take 3 s \<in> set
          [[CHR 0xE1, CHR 0x9A, CHR 0x80], [CHR 0xE2, CHR 0x80, CHR 0x80],
           [CHR 0xE2, CHR 0x80, CHR 0x81], [CHR 0xE2, CHR 0x80, CHR 0x82],
           [CHR 0xE2, CHR 0x80, CHR 0x83], [CHR 0xE2, CHR 0x80, CHR 0x84],
           [CHR 0xE2, CHR 0x80, CHR 0x85], [CHR 0xE2, CHR 0x80, CHR 0x86],
           [CHR 0xE2, CHR 0x80, CHR 0x87], [CHR 0xE2, CHR 0x80, CHR 0x88],
           [CHR 0xE2, CHR 0x80, CHR 0x89], [CHR 0xE2, CHR 0x80, CHR 0x8A],
           [CHR 0xE2, CHR 0x80, CHR 0xA8], [CHR 0xE2, CHR 0x80, CHR 0xA9],
           [CHR 0xE2, CHR 0x80, CHR 0xAF], [CHR 0xE2, CHR 0x81, CHR 0x9F],
           [CHR 0xE3, CHR 0x80, CHR 0x80], [CHR 0xEF, CHR 0xBB, CHR 0xBF]] then 3
      else 0)"

function trim_start :: "string \<Rightarrow> string" where
  "trim_start s =
     (if whitespace_length s = 0 then s else trim_start (drop (whitespace_length s) s))"
  by pat_completeness auto
termination
  by (relation "measure length") (auto simp: whitespace_length_def split: if_splits)

declare trim_start.simps [simp del]

definition is_digit :: "char \<Rightarrow> bool" where
  "is_digit c = (48 \<le> (of_char c :: nat) \<and> (of_char c :: nat) \<le> 57)"

definition digits_value :: "string \<Rightarrow> nat" where
  "digits_value ds = foldl (\<lambda>acc c. acc * 10 + (of_char c - 48)) 0 ds"

definition parseInt :: "string \<Rightarrow> js_number" where
  "parseInt s =
     (let s1 = trim_start s;
          negative = (s1 \<noteq> [] \<and> hd s1 = CHR ''-'');
          s2 = (if s1 \<noteq> [] \<and> (hd s1 = CHR ''-'' \<or> hd s1 = CHR ''+'') then tl s1 else s1);
          ds = takeWhile is_digit s2
      in if ds = [] then NaN
         else Num (if negative then - int (digits_value ds) else int (digits_value ds)))"

text \<open>
  A JSON value. A number is given by the text JavaScript prints for it; the members of
  an object are in the order the object enumerates them.
\<close>

datatype json =
  JNull | JBool bool | JNumber string | JString string | JArray "json list"
  | JObject "(string \<times> json) list"

definition hex_digit :: "nat \<Rightarrow> char" where
  "hex_digit n = (if n < 10 then char_of (48 + n) else char_of (87 + n))"

text \<open>\<open>QuoteJSONString\<close>: the escapes JSON.stringify writes inside a string.\<close>

definition JSON_escape :: "char \<Rightarrow> string" where
  \<open>JSON_escape c =
     (let n = (of_char c :: nat) in
      if n = 0x08 then [CHR 0x5C, CHR ''b'']
      else if n = 0x09 then [CHR 0x5C, CHR ''t'']
      else if n = 0x0A then [CHR 0x5C, CHR ''n'']
      else if n = 0x0C then [CHR 0x5C, CHR ''f'']
      else if n = 0x0D then [CHR 0x5C, CHR ''r'']
      else if n = 0x22 then [CHR 0x5C, CHR 0x22]
      else if n = 0x5C then [CHR 0x5C, CHR 0x5C]
      else if n < 0x20 then [CHR 0x5C, CHR ''u'', CHR ''0'', CHR ''0'', hex_digit (n div 16),
                              hex_digit (n mod 16)]
      else [c])\<close>

definition JSON_quote :: "string \<Rightarrow> string" where
  "JSON_quote s = [CHR 0x22] @ concat (map JSON_escape s) @ [CHR 0x22]"

fun join_comma :: "string list \<Rightarrow> string" where
  "join_comma [] = []"
| "join_comma [x] = x"
| "join_comma (x # y # ys) = x @ '','' @ join_comma (y # ys)"

fun JSON_stringify :: "json \<Rightarrow> string" where
  "JSON_stringify JNull = ''null''"
| "JSON_stringify (JBool b) = (if b then ''true'' else ''false'')"
| "JSON_stringify (JNumber t) = t"
| "JSON_stringify (JString s) = JSON_quote s"
| "JSON_stringify (JArray xs) = ''['' @ join_comma (map JSON_stringify xs) @ '']''"
| "JSON_stringify (JObject kvs) =
     ''{'' @ join_comma (map (\<lambda>kv. JSON_quote (fst kv) @ '':'' @ JSON_stringify (snd kv)) kvs)
     @ ''}''"

text \<open>\<open>process.env\<close>, and \<open>process.env.NAME || 'default'\<close>.\<close>

type_synonym env = "string \<rightharpoonup> string"

definition env_or :: "env \<Rightarrow> string \<Rightarrow> string \<Rightarrow> string" where
  "env_or env name fallback =
     (case env name of None \<Rightarrow> fallback | Some v \<Rightarrow> if v = [] then fallback else v)"

text \<open>A string that may be \<open>undefined\<close>, read where the code tests \<open>!value\<close>.\<close>

definition or_empty :: "string option \<Rightarrow> string" where
  "or_empty v = (case v of None \<Rightarrow> [] | Some s \<Rightarrow> s)"

section \<open>The Authorization header (crypto/sign.js, crypto/verify.js)\<close>

definition createSigningString :: "js_number \<Rightarrow> js_number \<Rightarrow> string \<Rightarrow> string" where
  "createSigningString created expires digest =
     ''(created): '' @ Number_toString created @ [CHR 0x0A] @
     ''(expires): '' @ Number_toString expires @ [CHR 0x0A] @
     ''digest: '' @ digest"

text \<open>
  The header text \<open>createAuthorizationHeader\<close> assembles, as a function of the values it
  inserts.
\<close>

definition authorization_header ::
  "string \<Rightarrow> string \<Rightarrow> string \<Rightarrow> string \<Rightarrow> string \<Rightarrow> string" where
  \<open>authorization_header subscriberId uniqueKeyId created expires signature =
     ''Signature keyId="'' @ subscriberId @ ''|'' @ uniqueKeyId @ ''|ed25519",'' @
     ''algorithm="ed25519",'' @
     ''created="'' @ created @ ''",'' @
     ''expires="'' @ expires @ ''",'' @
     ''headers="(created) (expires) digest",'' @
     ''signature="'' @ signature @ ''"''\<close>

text \<open>
  \<open>typeof body === 'string' ? body : JSON.stringify(body)\<close>, for a body that is a JSON
  value or \<open>undefined\<close> (\<open>None\<close>); \<open>JSON.stringify(undefined)\<close> is \<open>undefined\<close>.
\<close>

definition body_string :: "json option \<Rightarrow> string option" where
  "body_string b =
     (case b of None \<Rightarrow> None | Some (JString s) \<Rightarrow> Some s | Some j \<Rightarrow> Some (JSON_stringify j))"

text \<open>
  \<open>createDigest\<close>: SHA-256 of the UTF-8 bytes of the string, in base64, under the label
  \<open>BLAKE-512\<close>. The hash object throws on \<open>undefined\<close>.
\<close>

definition createDigest :: "primitives \<Rightarrow> string option \<Rightarrow> js_error + string" where
  \<open>createDigest prim b =
     (case b of
        None \<Rightarrow>
          Inl (TypeError (''The "data" argument must be of type string or an instance of '' @
                          ''Buffer, TypedArray, or DataView. Received undefined''))
      | Some s \<Rightarrow> Inr (''BLAKE-512='' @ encodeBase64 (sha256 prim (decodeUTF8 s))))\<close>

lemma encodeBase64_not_empty: "bs \<noteq> [] \<Longrightarrow> encodeBase64 bs \<noteq> []"
  by (cases bs rule: encodeBase64.cases) simp_all

lemma generated_privateKey_not_empty: "privateKey (generateKeyPair prim random) \<noteq> []"
proof -
  have "length (fit 64 sk) = 64" for sk
    by (simp add: fit_def)
  then have "fit 64 sk \<noteq> []" for sk
    by (metis length_0_conv zero_neq_numeral)
  then show ?thesis
    by (simp add: generateKeyPair_def nacl_sign_keyPair_def encodeBase64_not_empty
        split: prod.splits)
qed

text \<open>
  \<open>createAuthorizationHeader(body)\<close>. \<open>random\<close> are the bytes a key generation draws,
  \<open>now_ms\<close> is \<open>Date.now()\<close>. Without a private key in the environment the function
  generates a pair, writes it to the environment, and calls itself.
\<close>

function createAuthorizationHeader ::
  "primitives \<Rightarrow> byte list \<Rightarrow> int \<Rightarrow> json option \<Rightarrow> env \<Rightarrow> (js_error + string) \<times> env" where
  "createAuthorizationHeader prim random now_ms b env =
     (let subscriberId = env_or env ''SUBSCRIBER_ID'' ''ondc-logistics-bap.example.com'';
          uniqueKeyId = env_or env ''UNIQUE_KEY_ID'' ''k1'';
          privateKeyBase64 = or_empty (env ''PRIVATE_KEY'')
      in if privateKeyBase64 = [] then
           createAuthorizationHeader prim random now_ms b
             (env(''PRIVATE_KEY'' \<mapsto> privateKey (generateKeyPair prim random),
                  ''PUBLIC_KEY'' \<mapsto> publicKey (generateKeyPair prim random)))
         else
           (case createDigest prim (body_string b) of
              Inl e \<Rightarrow> (Inl e, env)
            | Inr digest \<Rightarrow>
                (let created = now_ms div 1000;
                     expires = created + 30;
                     signingString = createSigningString (Num created) (Num expires) digest
                 in case sign prim signingString privateKeyBase64 of
                      Inl e \<Rightarrow> (Inl e, env)
                    | Inr signature \<Rightarrow>
                        (Inr (authorization_header subscriberId uniqueKeyId
                                (Number_toString (Num created)) (Number_toString (Num expires))
                                signature), env))))"
  by pat_completeness auto
termination
  by (relation "measure (\<lambda>(prim, random, now_ms, b, env).
        if or_empty (env ''PRIVATE_KEY'') = [] then 1 else 0)")
     (auto simp: or_empty_def generated_privateKey_not_empty)

declare createAuthorizationHeader.simps [simp del]

text \<open>
  The regular expression \<^verbatim>\<open>/(\w+)="([^"]+)"/g\<close>. \<open>regex_match_here\<close> is a match that starts at
  the first character: a non-empty run of word characters, taken as far as it goes, then
  \<^verbatim>\<open>="\<close>, then a non-empty run of characters other than the double quote, then the double
  quote. (A shorter run for either group cannot match, for the character that follows
  it would still belong to the run.) \<open>regex_exec\<close> finds the leftmost match and returns
  the two groups with the text after the match, where the next search starts.
\<close>

definition is_word_char :: "char \<Rightarrow> bool" where
  "is_word_char c =
     (let n = (of_char c :: nat) in
      (65 \<le> n \<and> n \<le> 90) \<or> (97 \<le> n \<and> n \<le> 122) \<or> (48 \<le> n \<and> n \<le> 57) \<or> n = 95)"

definition regex_match_here :: "string \<Rightarrow> (string \<times> string \<times> string) option" where
  \<open>regex_match_here s =
     (let k = takeWhile is_word_char s;
          r1 = dropWhile is_word_char s
      in if k = [] \<or> take 2 r1 \<noteq> ''="'' then None
         else
           (let r2 = drop 2 r1;
                v = takeWhile (\<lambda>c. c \<noteq> CHR 0x22) r2;
                r3 = dropWhile (\<lambda>c. c \<noteq> CHR 0x22) r2
            in if v = [] \<or> r3 = [] then None else Some (k, v, tl r3)))\<close>

fun regex_exec :: "string \<Rightarrow> (string \<times> string \<times> string) option" where
  "regex_exec [] = None"
| "regex_exec (c # cs) =
     (case regex_match_here (c # cs) of Some m \<Rightarrow> Some m | None \<Rightarrow> regex_exec cs)"

lemma regex_match_here_shorter:
  assumes "regex_match_here s = Some (k, v, rest)"
  shows "length rest < length s"
proof -
  let ?r1 = "dropWhile is_word_char s"
  let ?r3 = "dropWhile (\<lambda>c. c \<noteq> CHR 0x22) (drop 2 ?r1)"
  from assms have r3: "?r3 \<noteq> []" and rest: "rest = tl ?r3"
    by (auto simp: regex_match_here_def Let_def split: if_splits)
  have "length ?r3 \<le> length (drop 2 ?r1)"
    by (rule length_dropWhile_le)
  also have "\<dots> \<le> length ?r1"
    by simp
  also have "\<dots> \<le> length s"
    by (rule length_dropWhile_le)
  finally have "length ?r3 \<le> length s" .
  moreover from r3 have "length (tl ?r3) < length ?r3"
    by (cases ?r3) simp_all
  ultimately show ?thesis
    using rest by simp
qed

lemma regex_exec_shorter:
  "regex_exec s = Some (k, v, rest) \<Longrightarrow> length rest < length s"
proof (induction s)
  case Nil
  then show ?case by simp
next
  case (Cons c cs)
  show ?case
  proof (cases "regex_match_here (c # cs)")
    case None
    with Cons show ?thesis by fastforce
  next
    case (Some m)
    with Cons.prems have "regex_match_here (c # cs) = Some (k, v, rest)" by simp
    then show ?thesis by (rule regex_match_here_shorter)
  qed
qed

text \<open>
  The object \<open>params\<close>, by its own properties. The assignment \<open>params[k] = v\<close> of a string
  under the key \<open>__proto__\<close> goes to the inherited setter, which ignores a value that is
  not an object.
\<close>

type_synonym params = "string \<rightharpoonup> string"

definition params_set :: "params \<Rightarrow> string \<Rightarrow> string \<Rightarrow> params" where
  "params_set p k v = (if k = ''__proto__'' then p else p(k \<mapsto> v))"

function parse_params :: "params \<Rightarrow> string \<Rightarrow> params" where
  "parse_params p s =
     (case regex_exec s of
        None \<Rightarrow> p
      | Some (k, v, rest) \<Rightarrow> parse_params (params_set p k v) rest)"
  by pat_completeness auto
termination
  by (relation "measure (\<lambda>(p, s). length s)") (auto simp: regex_exec_shorter)

declare parse_params.simps [simp del]

definition parseAuthorizationHeader :: "string \<Rightarrow> params" where
  "parseAuthorizationHeader header =
     parse_params Map.empty
       (if take 10 header = ''Signature '' then drop 10 header else header)"

text \<open>
  An incoming request: the Authorization header, the body as \<open>express.json()\<close> parsed it
  (\<open>None\<close> for \<open>undefined\<close>), and the bytes of the body as they were transmitted, which the
  parser consumed.
\<close>

record request =
  headers_authorization :: "string option"
  req_body :: "json option"
  wire_bytes :: string

record auth_result =
  valid :: bool
  error :: "string option"

text \<open>\<open>const bodyString = JSON.stringify(req.body)\<close>: the string the verifier digests.\<close>

definition verifier_body_string :: "request \<Rightarrow> string option" where
  "verifier_body_string req = map_option JSON_stringify (req_body req)"

definition verifyAuthorizationHeader ::
  "primitives \<Rightarrow> env \<Rightarrow> int \<Rightarrow> request \<Rightarrow> auth_result" where
  "verifyAuthorizationHeader prim env now_ms req =
     (if env ''DEV_MODE'' = Some ''true'' then \<lparr>valid = True, error = None\<rparr>
      else
        (let authHeader = or_empty (headers_authorization req)
         in if authHeader = []
            then \<lparr>valid = False, error = Some ''Missing Authorization header''\<rparr>
            else
              (case
                 (let params = parseAuthorizationHeader authHeader
                  in if or_empty (params ''keyId'') = [] \<or> or_empty (params ''signature'') = []
                        \<or> or_empty (params ''created'') = [] \<or> or_empty (params ''expires'') = []
                     then Inr \<lparr>valid = False, error = Some ''Malformed Authorization header''\<rparr>
                     else
                       (let now = now_ms div 1000
                        in if js_greater (Num now) (parseInt (or_empty (params ''expires'')))
                           then Inr \<lparr>valid = False,
                                     error = Some ''Authorization header expired''\<rparr>
                           else
                             (let publicKeyBase64 = or_empty (env ''PUBLIC_KEY'')
                              in if publicKeyBase64 = []
                                 then Inr \<lparr>valid = False,
                                     error = Some ''No public key configured for verification''\<rparr>
                                 else
                                   (case createDigest prim (verifier_body_string req) of
                                      Inl e \<Rightarrow> Inl e
                                    | Inr digest \<Rightarrow>
                                        (case verify prim
                                                (createSigningString
                                                   (parseInt (or_empty (params ''created'')))
                                                   (parseInt (or_empty (params ''expires'')))
                                                   digest)
                                                (or_empty (params ''signature''))
                                                publicKeyBase64 of
                                           Inl e \<Rightarrow> Inl e
                                         | Inr isValid \<Rightarrow>
                                             Inr \<lparr>valid = isValid,
                                                  error = (if isValid then None
                                                           else Some ''Invalid signature'')\<rparr>)))))
               of
                 Inl err \<Rightarrow>
                   \<lparr>valid = False,
                    error = Some (''Verification failed: '' @ error_message err)\<rparr>
               | Inr result \<Rightarrow> result)))"

section \<open>The outbound dispatcher (services/beckn-service.js)\<close>



section \<open>The subscription challenge (scripts/test-crypto.js, routes/on\_subscribe.js)\<close>

















section \<open>Properties of the transaction store\<close>

lemma Object_prototype_get_not_Txn: "Object_prototype_get k \<noteq> Txn t"
  by (simp add: Object_prototype_get_def)

lemma transaction_get_not_Txn: "transaction_get r k \<noteq> Txn t"
  by (simp add: transaction_get_def Object_prototype_get_not_Txn)

lemma transactions_get_set: "transactions_get (transactions_set s k t) k = Txn t"
  by (auto simp: transactions_get_def transactions_set_def)

lemma add_data_found:
  assumes "transactions_get s k = Txn t"
  shows "transactions_get (snd (add_data upd k s)) k = Txn (upd t)"
    and "fst (add_data upd k s) = Inr (Txn (upd t))"
  using assms
  by (auto simp: add_data_def transactions_get_def Let_def Object_prototype_get_not_Txn
      transaction_get_not_Txn split: option.splits if_splits)

lemma add_data_undefined:
  assumes "transactions_get s k = Undefined"
  shows "add_data upd k s = (Inr Null, s)"
  using assms by (simp add: add_data_def)

text \<open>
  An id under which the read finds nothing, neither an own property nor an inherited
  one, gets \<open>null\<close> from each \<open>add*\<close> function, and the store stays as it is.
\<close>

lemma add_unknown_id:
  assumes "transactions_get s tid = Undefined"
  shows "addCatalogData tid x now s = (Inr Null, s)"
    and "addSelectData tid x now s = (Inr Null, s)"
    and "addInitData tid x now s = (Inr Null, s)"
    and "addStatusData tid x now s = (Inr Null, s)"
    and "addErrorData tid x now s = (Inr Null, s)"
  using assms
  by (simp_all add: addCatalogData_def addSelectData_def addInitData_def addStatusData_def
      addErrorData_def add_data_undefined)

text \<open>
  C7. After \<open>createTransaction(T1, messageId, payload)\<close>, \<open>addCatalogData(T1, a)\<close> and
  \<open>addCatalogData(T1, b)\<close>, in any store and for any id, \<open>getTransaction(T1)\<close> returns the
  record whose \<open>catalogs\<close> is exactly \<open>[a, b]\<close>, in arrival order, and whose status is
  \<open>results_ready\<close>.
\<close>

theorem catalogs_appended_in_order:
  "getTransaction T1
     (snd (addCatalogData T1 b n4 (snd (addCatalogData T1 a n3
        (snd (createTransaction T1 mid p n1 n2 s)))))) =
   Txn \<lparr>transactionId = T1, messageId = mid, status = ''results_ready'', search = p,
        catalogs = [a, b], selections = [], initResults = [], statusResults = [],
        errors = [], createdAt = n1, updatedAt = n4\<rparr>"
  by (simp add: getTransaction_def addCatalogData_def createTransaction_def Let_def
      add_data_found(1) transactions_get_set)

text \<open>
  C8. An id that is not in the store must give \<open>null\<close> and leave the store as it is. For an
  id that names a property every object inherits, here \<open>constructor\<close> in the empty store,
  the read \<open>store.transactions[id]\<close> yields the inherited function, the guard \<open>!txn\<close> does
  not fire, and each of the five \<open>add*\<close> functions throws a TypeError at its \<open>push\<close>
  instead of returning \<open>null\<close>. The store is unchanged.
\<close>

theorem add_inherited_key_throws:
  "addCatalogData ''constructor'' x now initial_store =
     (Inl (TypeError ''Cannot read properties of undefined (reading 'push')''), initial_store)
   \<and> addSelectData ''constructor'' x now initial_store =
     (Inl (TypeError ''Cannot read properties of undefined (reading 'push')''), initial_store)
   \<and> addInitData ''constructor'' x now initial_store =
     (Inl (TypeError ''Cannot read properties of undefined (reading 'push')''), initial_store)
   \<and> addStatusData ''constructor'' x now initial_store =
     (Inl (TypeError ''Cannot read properties of undefined (reading 'push')''), initial_store)
   \<and> addErrorData ''constructor'' x now initial_store =
     (Inl (TypeError ''Cannot read properties of undefined (reading 'push')''), initial_store)
   \<and> transactions (initial_store :: 'p store) ''constructor'' = None"
  by (simp add: addCatalogData_def addSelectData_def addInitData_def addStatusData_def
      addErrorData_def add_data_def initial_store_def transactions_get_def
      Object_prototype_get_def Object_prototype_names_def)

text \<open>
  C2. The store module binds neither \<open>addConfirmData\<close> nor \<open>addCancelData\<close>. The two
  callback handlers therefore take \<open>null\<close> for the record: for a transaction that exists,
  both answer NACK 404 and the store, with the transaction's status \<open>searching\<close>, is left
  as it was.
\<close>

theorem confirm_cancel_not_provided:
  "(store_module ''addConfirmData'' :: 'p store_export option) = None
   \<and> (store_module ''addCancelData'' :: 'p store_export option) = None
   \<and> on_confirm_handler ''T1'' x now
         (snd (createTransaction ''T1'' mid (p :: 'p) n1 n2 initial_store)) =
       (Inr (NACK ''404'' ''Transaction not found or server error''),
        snd (createTransaction ''T1'' mid p n1 n2 initial_store))
   \<and> on_cancel_handler ''T1'' x now
         (snd (createTransaction ''T1'' mid (p :: 'p) n1 n2 initial_store)) =
       (Inr (NACK ''404'' ''Transaction not found or server error''),
        snd (createTransaction ''T1'' mid p n1 n2 initial_store))
   \<and> getTransaction ''T1'' (snd (createTransaction ''T1'' mid p n1 n2 initial_store)) =
       Txn \<lparr>transactionId = ''T1'', messageId = mid, status = ''searching'', search = p,
            catalogs = [], selections = [], initResults = [], statusResults = [],
            errors = [], createdAt = n1, updatedAt = n2\<rparr>"
  by (simp add: store_module_def on_confirm_handler_def on_cancel_handler_def
      callback_handler_def store_call_def getTransaction_def createTransaction_def
      transactions_get_set)

section \<open>Properties of base64\<close>

lemma base64_value_char: "n < 64 \<Longrightarrow> base64_value (base64_char n) = n"
  by (auto simp: base64_value_def base64_char_def Let_def)

lemma is_base64_char_char: "n < 64 \<Longrightarrow> is_base64_char (base64_char n)"
  by (auto simp: is_base64_char_def base64_char_def Let_def)

lemma is_base64_char_not_pad: "is_base64_char c \<Longrightarrow> c \<noteq> CHR ''='' \<and> c \<noteq> CHR 0x22"
  by (auto simp: is_base64_char_def Let_def)

lemma unat_byte_less: "unat (a :: byte) < 256"
  using unsigned_less [of a, where ?'a = nat] by simp

lemma octet_unat: "octet (unat a) = a"
  by (simp add: octet_def)

lemma sextet1: "x < 256 \<Longrightarrow> x div 4 < (64::nat)" by simp
lemma sextet2: "x < 256 \<Longrightarrow> y < 256 \<Longrightarrow> x mod 4 * 16 + y div 16 < (64::nat)"
proof -
  assume "y < 256"
  then have "y div 16 < 16" by simp
  moreover have "x mod 4 < 4" by simp
  ultimately show ?thesis by linarith
qed
lemma sextet3: "y < 256 \<Longrightarrow> x mod 16 * 4 + y div 64 < (64::nat)"
proof -
  assume "y < 256"
  then have "y div 64 < 4" by simp
  moreover have "x mod 16 < 16" by simp
  ultimately show ?thesis by linarith
qed
lemma sextet4: "x mod 64 < (64::nat)" by simp
lemma sextet2': "x mod 4 * 16 < (64::nat)"
proof -
  have "x mod 4 < 4" by simp
  then show ?thesis by linarith
qed
lemma sextet3': "x mod 16 * 4 < (64::nat)"
proof -
  have "x mod 16 < 16" by simp
  then show ?thesis by linarith
qed

lemma byte_div_facts:
  "unat (b :: byte) div 16 div 16 = 0" "unat (b :: byte) div 64 div 4 = 0"
  "unat (b :: byte) div 16 mod 16 = unat b div 16" "unat (b :: byte) div 64 mod 4 = unat b div 64"
  using unat_byte_less [of b] by (simp_all add: div_mult2_eq [symmetric])

lemmas sextets = sextet1 sextet2 sextet3 sextet4 sextet2' sextet3'

lemma validateBase64_encode: "validateBase64 (encodeBase64 bs)"
  by (induction bs rule: encodeBase64.induct)
     (simp_all add: is_base64_char_char sextets unat_byte_less)

lemma base64_bytes_encode: "base64_bytes (encodeBase64 bs) = bs"
  by (induction bs rule: encodeBase64.induct)
     (simp_all add: base64_value_char is_base64_char_char is_base64_char_not_pad
        sextets unat_byte_less octet_unat byte_div_facts Let_def)

lemma decodeBase64_encodeBase64: "decodeBase64 (encodeBase64 bs) = Inr bs"
  by (simp add: decodeBase64_def validateBase64_encode base64_bytes_encode)

section \<open>Properties of signing and verification\<close>

lemma length_fit: "length (fit n xs) = n"
  by (simp add: fit_def)

lemma fit_idem: "length xs = n \<Longrightarrow> fit n xs = xs"
  by (simp add: fit_def)

lemma toy_primitives_correct: "ed25519_correct toy_primitives"
  by (simp add: ed25519_correct_def toy_primitives_def nacl_sign_keyPair_def fit_idem length_fit)

text \<open>
  C1. For every message and every key pair that \<open>generateKeyPair\<close> produces, \<open>sign\<close> returns
  a signature and \<open>verify\<close> of the message, that signature and the public key of the pair
  returns \<open>true\<close>, given that the Ed25519 primitives of the library are correct.
\<close>

theorem sign_verify_round_trip:
  assumes "ed25519_correct prim"
  shows "\<exists>sg. sign prim message (privateKey (generateKeyPair prim random)) = Inr sg
            \<and> verify prim message sg (publicKey (generateKeyPair prim random)) = Inr True"
proof -
  obtain pk sk where kp: "nacl_sign_keyPair prim random = (pk, sk)"
    by (cases "nacl_sign_keyPair prim random")
  then have len: "length pk = 32" "length sk = 64"
    by (auto simp: nacl_sign_keyPair_def length_fit split: prod.splits)
  let ?sig = "fit 64 (ed25519_sign prim (decodeUTF8 message) sk)"
  have ok: "ed25519_verify prim (decodeUTF8 message) ?sig pk"
    using assms kp unfolding ed25519_correct_def
    by (metis fst_conv snd_conv)
  have s: "sign prim message (privateKey (generateKeyPair prim random)) =
             Inr (encodeBase64 ?sig)"
    by (simp add: sign_def generateKeyPair_def kp decodeBase64_encodeBase64
        nacl_sign_detached_def len)
  have v: "verify prim message (encodeBase64 ?sig)
             (publicKey (generateKeyPair prim random)) = Inr True"
    by (simp add: verify_def try_catch_def generateKeyPair_def kp decodeBase64_encodeBase64
        nacl_sign_detached_verify_def len length_fit ok)
  from s v show ?thesis by blast
qed

theorem sign_verify_round_trip_witness:
  "ed25519_correct toy_primitives \<and>
   (\<exists>sg. sign toy_primitives ''(created): 1''
           (privateKey (generateKeyPair toy_primitives [1, 2, 3])) = Inr sg
      \<and> verify toy_primitives ''(created): 1'' sg
           (publicKey (generateKeyPair toy_primitives [1, 2, 3])) = Inr True)"
  using sign_verify_round_trip [OF toy_primitives_correct] toy_primitives_correct by blast



section \<open>Properties of the Authorization header\<close>

lemma not_word_char_equals: "\<not> is_word_char CHR ''=''" "\<not> is_word_char CHR '',''"
  by (simp_all add: is_word_char_def)

lemma regex_match_here_field:
  assumes "k \<noteq> []" "\<forall>c\<in>set k. is_word_char c" "v \<noteq> []" "CHR 0x22 \<notin> set v"
  shows \<open>regex_match_here (k @ ''="'' @ v @ ''"'' @ rest) = Some (k, v, rest)\<close>
proof -
  have tk: \<open>takeWhile is_word_char (k @ ''="'' @ v @ ''"'' @ rest) = k\<close>
    using assms(2) by (simp add: not_word_char_equals)
  have dk: \<open>dropWhile is_word_char (k @ ''="'' @ v @ ''"'' @ rest) = ''="'' @ v @ ''"'' @ rest\<close>
    using assms(2) by (simp add: not_word_char_equals)
  have nq: "\<And>x. x \<in> set v \<Longrightarrow> x \<noteq> CHR 0x22"
    using assms(4) by auto
  have tv: \<open>takeWhile (\<lambda>c. c \<noteq> CHR 0x22) (v @ ''"'' @ rest) = v\<close>
    using nq by simp
  have dv: \<open>dropWhile (\<lambda>c. c \<noteq> CHR 0x22) (v @ ''"'' @ rest) = ''"'' @ rest\<close>
    using nq by simp
  show ?thesis
    unfolding regex_match_here_def tk dk using assms(1,3) tv dv by (simp add: Let_def)
qed

lemma regex_exec_field:
  assumes "k \<noteq> []" "\<forall>c\<in>set k. is_word_char c" "v \<noteq> []" "CHR 0x22 \<notin> set v"
  shows \<open>regex_exec (k @ ''="'' @ v @ ''"'' @ rest) = Some (k, v, rest)\<close>
proof -
  obtain c cs where k: "k = c # cs"
    using assms(1) by (cases k) auto
  have "regex_exec ((c # cs) @ ''=\"'' @ v @ ''\"'' @ rest) = Some (c # cs, v, rest)"
    using regex_match_here_field [OF assms, of rest] by (simp add: k)
  then show ?thesis by (simp add: k)
qed


lemma regex_exec_comma_field:
  assumes "k \<noteq> []" "\<forall>c\<in>set k. is_word_char c" "v \<noteq> []" "CHR 0x22 \<notin> set v"
  shows \<open>regex_exec ('','' @ k @ ''="'' @ v @ ''"'' @ rest) = Some (k, v, rest)\<close>
proof -
  have \<open>regex_match_here ('','' @ k @ ''="'' @ v @ ''"'' @ rest) = None\<close>
    by (simp add: regex_match_here_def not_word_char_equals)
  then show ?thesis
    using regex_exec_field [OF assms, of rest] by simp
qed

lemma parse_params_field:
  assumes "k \<noteq> []" "\<forall>c\<in>set k. is_word_char c" "v \<noteq> []" "CHR 0x22 \<notin> set v"
  shows \<open>parse_params p (k @ ''="'' @ v @ ''"'' @ rest) = parse_params (params_set p k v) rest\<close>
  apply (subst parse_params.simps)
  using regex_exec_field [OF assms, of rest] apply simp
  done

lemma parse_params_comma_field:
  assumes "k \<noteq> []" "\<forall>c\<in>set k. is_word_char c" "v \<noteq> []" "CHR 0x22 \<notin> set v"
  shows \<open>parse_params p ('','' @ k @ ''="'' @ v @ ''"'' @ rest) =
           parse_params (params_set p k v) rest\<close>
  apply (subst parse_params.simps)
  using regex_exec_comma_field [OF assms, of rest] apply simp
  done

lemma parse_params_Nil: "parse_params p [] = p"
  by (simp add: parse_params.simps)

lemma word_chars_of_names:
  "\<forall>c\<in>set ''keyId''. is_word_char c" "\<forall>c\<in>set ''algorithm''. is_word_char c"
  "\<forall>c\<in>set ''created''. is_word_char c" "\<forall>c\<in>set ''expires''. is_word_char c"
  "\<forall>c\<in>set ''headers''. is_word_char c" "\<forall>c\<in>set ''signature''. is_word_char c"
  by (simp_all add: is_word_char_def)

lemma parse_header_content:
  assumes "CHR 0x22 \<notin> set keyId" "keyId \<noteq> []" "c \<noteq> []" "CHR 0x22 \<notin> set c"
    "e \<noteq> []" "CHR 0x22 \<notin> set e" "sg \<noteq> []" "CHR 0x22 \<notin> set sg"
  shows \<open>parse_params Map.empty
           (''keyId'' @ ''="'' @ keyId @ ''"'' @
            '','' @ ''algorithm'' @ ''="'' @ ''ed25519'' @ ''"'' @
            '','' @ ''created'' @ ''="'' @ c @ ''"'' @
            '','' @ ''expires'' @ ''="'' @ e @ ''"'' @
            '','' @ ''headers'' @ ''="'' @ ''(created) (expires) digest'' @ ''"'' @
            '','' @ ''signature'' @ ''="'' @ sg @ ''"'' @ []) =
         [''keyId'' \<mapsto> keyId, ''algorithm'' \<mapsto> ''ed25519'', ''created'' \<mapsto> c, ''expires'' \<mapsto> e,
          ''headers'' \<mapsto> ''(created) (expires) digest'', ''signature'' \<mapsto> sg]\<close>
proof -
  have a: "''ed25519'' \<noteq> []" "CHR 0x22 \<notin> set ''ed25519''"
    "''(created) (expires) digest'' \<noteq> []" "CHR 0x22 \<notin> set ''(created) (expires) digest''"
    "''keyId'' \<noteq> []" "''algorithm'' \<noteq> []" "''created'' \<noteq> []" "''expires'' \<noteq> []"
    "''headers'' \<noteq> []" "''signature'' \<noteq> []"
    by simp_all
  show ?thesis
    apply (subst parse_params_field [OF a(5) word_chars_of_names(1) assms(2,1)])
    apply (subst parse_params_comma_field [OF a(6) word_chars_of_names(2) a(1,2)])
    apply (subst parse_params_comma_field [OF a(7) word_chars_of_names(3) assms(3,4)])
    apply (subst parse_params_comma_field [OF a(8) word_chars_of_names(4) assms(5,6)])
    apply (subst parse_params_comma_field [OF a(9) word_chars_of_names(5) a(3,4)])
    apply (subst parse_params_comma_field [OF a(10) word_chars_of_names(6) assms(7,8)])
    apply (simp add: parse_params_Nil params_set_def)
    done
qed


lemma is_digit_digit_char: "d < 10 \<Longrightarrow> is_digit (digit_char d)"
  by (simp add: is_digit_def digit_char_def)

lemma show_nat_not_empty: "show_nat n \<noteq> []"
  by (subst show_nat.simps) simp

lemma show_nat_digits: "c \<in> set (show_nat n) \<Longrightarrow> is_digit c"
proof (induction n rule: show_nat.induct)
  case (1 n)
  show ?case
  proof (cases "n < 10")
    case True
    with 1(2) show ?thesis
      by (subst (asm) show_nat.simps) (simp add: is_digit_digit_char)
  next
    case False
    from 1(2) have "c \<in> set (show_nat (n div 10)) \<or> c = digit_char (n mod 10)"
      by (subst (asm) show_nat.simps) (use False in auto)
    with 1(1) [OF False] show ?thesis
      by (auto simp: is_digit_digit_char)
  qed
qed

lemma is_digit_not_quote: "is_digit c \<Longrightarrow> c \<noteq> CHR 0x22"
  by (auto simp: is_digit_def)

lemma Number_toString_Num:
  "Number_toString (Num i) \<noteq> []" "CHR 0x22 \<notin> set (Number_toString (Num i))"
  using show_nat_digits is_digit_not_quote by (auto simp: show_nat_not_empty)

lemma encodeBase64_chars:
  "c \<in> set (encodeBase64 bs) \<Longrightarrow> is_base64_char c \<or> c = CHR ''=''"
  by (induction bs rule: encodeBase64.induct)
     (auto simp: is_base64_char_char sextets unat_byte_less)

lemma encodeBase64_no_quote: "CHR 0x22 \<notin> set (encodeBase64 bs)"
  using encodeBase64_chars is_base64_char_not_pad by fastforce

lemma sign_result:
  assumes "sign prim m k = Inr sg"
  shows "sg \<noteq> []" "CHR 0x22 \<notin> set sg"
proof -
  from assms obtain bs where sg: "sg = encodeBase64 (fit 64 bs)"
    by (auto simp: sign_def nacl_sign_detached_def split: sum.splits if_splits)
  have "length (fit 64 bs) = 64" by (rule length_fit)
  then have "fit 64 bs \<noteq> []" by (metis length_0_conv zero_neq_numeral)
  then show "sg \<noteq> []" by (simp add: sg encodeBase64_not_empty)
  show "CHR 0x22 \<notin> set sg" by (simp add: sg encodeBase64_no_quote)
qed

lemma authorization_header_content:
  \<open>authorization_header sub uk c e sg =
     ''Signature '' @
     (''keyId'' @ ''="'' @ (sub @ ''|'' @ uk @ ''|ed25519'') @ ''"'' @
      '','' @ ''algorithm'' @ ''="'' @ ''ed25519'' @ ''"'' @
      '','' @ ''created'' @ ''="'' @ c @ ''"'' @
      '','' @ ''expires'' @ ''="'' @ e @ ''"'' @
      '','' @ ''headers'' @ ''="'' @ ''(created) (expires) digest'' @ ''"'' @
      '','' @ ''signature'' @ ''="'' @ sg @ ''"'' @ [])\<close>
  by (simp add: authorization_header_def)

lemma parse_authorization_header:
  assumes "CHR 0x22 \<notin> set sub" "CHR 0x22 \<notin> set uk" "c \<noteq> []" "CHR 0x22 \<notin> set c"
    "e \<noteq> []" "CHR 0x22 \<notin> set e" "sg \<noteq> []" "CHR 0x22 \<notin> set sg"
  shows "parseAuthorizationHeader (authorization_header sub uk c e sg) =
         [''keyId'' \<mapsto> sub @ ''|'' @ uk @ ''|ed25519'', ''algorithm'' \<mapsto> ''ed25519'',
          ''created'' \<mapsto> c, ''expires'' \<mapsto> e,
          ''headers'' \<mapsto> ''(created) (expires) digest'', ''signature'' \<mapsto> sg]"
    and "parseAuthorizationHeader (drop 10 (authorization_header sub uk c e sg)) =
         parseAuthorizationHeader (authorization_header sub uk c e sg)"
proof -
  have k: "CHR 0x22 \<notin> set (sub @ ''|'' @ uk @ ''|ed25519'')" "sub @ ''|'' @ uk @ ''|ed25519'' \<noteq> []"
    using assms(1,2) by simp_all
  note content = parse_header_content [OF k assms(3-8)]
  show 1: "parseAuthorizationHeader (authorization_header sub uk c e sg) =
         [''keyId'' \<mapsto> sub @ ''|'' @ uk @ ''|ed25519'', ''algorithm'' \<mapsto> ''ed25519'',
          ''created'' \<mapsto> c, ''expires'' \<mapsto> e,
          ''headers'' \<mapsto> ''(created) (expires) digest'', ''signature'' \<mapsto> sg]"
    unfolding parseAuthorizationHeader_def authorization_header_content
    using content by simp
  show "parseAuthorizationHeader (drop 10 (authorization_header sub uk c e sg)) =
         parseAuthorizationHeader (authorization_header sub uk c e sg)"
    unfolding 1 unfolding parseAuthorizationHeader_def authorization_header_content
    using content by simp
qed


lemma env_or_other:
  "name \<noteq> ''PRIVATE_KEY'' \<Longrightarrow> name \<noteq> ''PUBLIC_KEY'' \<Longrightarrow>
   env_or (env(''PRIVATE_KEY'' \<mapsto> a, ''PUBLIC_KEY'' \<mapsto> b)) name d = env_or env name d"
  by (simp add: env_or_def)

lemma createAuthorizationHeader_with_key:
  assumes "or_empty (env ''PRIVATE_KEY'') \<noteq> []"
    and "createAuthorizationHeader prim random now_ms b env = (Inr header, env')"
  shows "\<exists>sg m. sign prim m (or_empty (env ''PRIVATE_KEY'')) = Inr sg \<and>
           header = authorization_header
             (env_or env ''SUBSCRIBER_ID'' ''ondc-logistics-bap.example.com'')
             (env_or env ''UNIQUE_KEY_ID'' ''k1'')
             (Number_toString (Num (now_ms div 1000)))
             (Number_toString (Num (now_ms div 1000 + 30))) sg"
  using assms(2) unfolding createAuthorizationHeader.simps [of prim random now_ms b env]
  using assms(1)
  by (auto simp: Let_def simp del: Number_toString.simps split: sum.splits)

lemma createAuthorizationHeader_shape:
  assumes "createAuthorizationHeader prim random now_ms b env = (Inr header, env')"
  shows "\<exists>sg m k. sign prim m k = Inr sg \<and>
           header = authorization_header
             (env_or env ''SUBSCRIBER_ID'' ''ondc-logistics-bap.example.com'')
             (env_or env ''UNIQUE_KEY_ID'' ''k1'')
             (Number_toString (Num (now_ms div 1000)))
             (Number_toString (Num (now_ms div 1000 + 30))) sg"
proof (cases "or_empty (env ''PRIVATE_KEY'') = []")
  case False
  from createAuthorizationHeader_with_key [OF False assms] show ?thesis by blast
next
  case True
  let ?env = "env(''PRIVATE_KEY'' \<mapsto> privateKey (generateKeyPair prim random),
                  ''PUBLIC_KEY'' \<mapsto> publicKey (generateKeyPair prim random))"
  have key: "or_empty (?env ''PRIVATE_KEY'') \<noteq> []"
    by (simp add: or_empty_def generated_privateKey_not_empty)
  from assms have "createAuthorizationHeader prim random now_ms b ?env = (Inr header, env')"
    unfolding createAuthorizationHeader.simps [of prim random now_ms b env]
    using True by (simp add: Let_def)
  from createAuthorizationHeader_with_key [OF key this] show ?thesis
    unfolding env_or_other [OF _ _] by (simp add: env_or_other del: Number_toString.simps) blast
qed


text \<open>
  C6. A header that \<open>createAuthorizationHeader\<close> returns is the fixed text with the six
  values in it, and, when neither the subscriber id nor the key id contains a double
  quote, \<open>parseAuthorizationHeader\<close> maps each of the six field names to exactly the value
  that was written; parsing the header without its first ten characters, the prefix
  \<open>Signature\<close> and the space, gives the same mapping.
\<close>

theorem authorization_header_round_trip:
  assumes "createAuthorizationHeader prim random now_ms b env = (Inr header, env')"
    and "CHR 0x22 \<notin> set (env_or env ''SUBSCRIBER_ID'' ''ondc-logistics-bap.example.com'')"
    and "CHR 0x22 \<notin> set (env_or env ''UNIQUE_KEY_ID'' ''k1'')"
  shows "\<exists>signature.
           header = authorization_header
             (env_or env ''SUBSCRIBER_ID'' ''ondc-logistics-bap.example.com'')
             (env_or env ''UNIQUE_KEY_ID'' ''k1'')
             (Number_toString (Num (now_ms div 1000)))
             (Number_toString (Num (now_ms div 1000 + 30))) signature
         \<and> parseAuthorizationHeader header =
             [''keyId'' \<mapsto> env_or env ''SUBSCRIBER_ID'' ''ondc-logistics-bap.example.com'' @ ''|''
                          @ env_or env ''UNIQUE_KEY_ID'' ''k1'' @ ''|ed25519'',
              ''algorithm'' \<mapsto> ''ed25519'',
              ''created'' \<mapsto> Number_toString (Num (now_ms div 1000)),
              ''expires'' \<mapsto> Number_toString (Num (now_ms div 1000 + 30)),
              ''headers'' \<mapsto> ''(created) (expires) digest'',
              ''signature'' \<mapsto> signature]
         \<and> parseAuthorizationHeader (drop 10 header) = parseAuthorizationHeader header"
proof -
  from createAuthorizationHeader_shape [OF assms(1)]
  obtain sg m k where sg: "sign prim m k = Inr sg"
    and h: "header = authorization_header
             (env_or env ''SUBSCRIBER_ID'' ''ondc-logistics-bap.example.com'')
             (env_or env ''UNIQUE_KEY_ID'' ''k1'')
             (Number_toString (Num (now_ms div 1000)))
             (Number_toString (Num (now_ms div 1000 + 30))) sg"
    by blast
  note p = parse_authorization_header [OF assms(2,3) Number_toString_Num Number_toString_Num
      sign_result [OF sg]]
  show ?thesis
    using h p by blast
qed

lemma createAuthorizationHeader_generates:
  assumes "or_empty (env ''PRIVATE_KEY'') = []"
  shows "\<exists>header env'.
           createAuthorizationHeader prim random now_ms (Some j) env = (Inr header, env')"
proof -
  let ?env = "env(''PRIVATE_KEY'' \<mapsto> privateKey (generateKeyPair prim random),
                  ''PUBLIC_KEY'' \<mapsto> publicKey (generateKeyPair prim random))"
  have d: "\<exists>digest. createDigest prim (body_string (Some j)) = Inr digest"
    by (cases j) (simp_all add: createDigest_def body_string_def)
  have s: "sign prim m (privateKey (generateKeyPair prim random)) =
      Inr (encodeBase64 (fit 64 (ed25519_sign prim (decodeUTF8 m)
             (snd (nacl_sign_keyPair prim random)))))" for m
    by (auto simp: sign_def generateKeyPair_def nacl_sign_keyPair_def decodeBase64_encodeBase64
        nacl_sign_detached_def length_fit split: prod.splits)
  have "\<exists>header env'.
           createAuthorizationHeader prim random now_ms (Some j) ?env = (Inr header, env')"
    unfolding createAuthorizationHeader.simps [of prim random now_ms "Some j" ?env]
    using d
    by (auto simp: Let_def or_empty_def generated_privateKey_not_empty s
        simp del: Number_toString.simps split: sum.splits)
  then show ?thesis
    unfolding createAuthorizationHeader.simps [of prim random now_ms "Some j" env]
    using assms by (simp add: Let_def)
qed

lemma Number_toString_1000: "Number_toString (Num 1000) = ''1000''" "Number_toString (Num 1030) = ''1030''"
  by code_simp+

theorem authorization_header_round_trip_witness:
  "\<exists>header env' signature.
     createAuthorizationHeader toy_primitives [1, 2, 3] 1000000 (Some (JObject [])) Map.empty =
       (Inr header, env')
     \<and> parseAuthorizationHeader header =
         [''keyId'' \<mapsto> ''ondc-logistics-bap.example.com|k1|ed25519'',
          ''algorithm'' \<mapsto> ''ed25519'', ''created'' \<mapsto> ''1000'', ''expires'' \<mapsto> ''1030'',
          ''headers'' \<mapsto> ''(created) (expires) digest'', ''signature'' \<mapsto> signature]
     \<and> parseAuthorizationHeader (drop 10 header) = parseAuthorizationHeader header"
proof -
  obtain header env' where c:
    "createAuthorizationHeader toy_primitives [1, 2, 3] 1000000 (Some (JObject [])) Map.empty =
       (Inr header, env')"
    using createAuthorizationHeader_generates
      [of Map.empty toy_primitives "[1, 2, 3]" 1000000 "JObject []"]
    by (auto simp: or_empty_def)
  have q: "CHR 0x22 \<notin> set (env_or Map.empty ''SUBSCRIBER_ID'' ''ondc-logistics-bap.example.com'')"
    "CHR 0x22 \<notin> set (env_or Map.empty ''UNIQUE_KEY_ID'' ''k1'')"
    by (simp_all add: env_or_def)
  from authorization_header_round_trip [OF c q] c show ?thesis
    by (simp add: env_or_def Number_toString_1000 del: Number_toString.simps) blast
qed


lemma regex_exec_skip_tail:
  \<open>regex_exec (''b|k1|ed25519",'' @ t) = regex_exec t\<close>
  by (simp add: regex_match_here_def is_word_char_def)

lemma parse_params_cong:
  assumes "regex_exec s = regex_exec t"
  shows "parse_params p s = parse_params p t"
proof -
  have "parse_params p s =
      (case regex_exec s of None \<Rightarrow> p
       | Some (k, v, rest) \<Rightarrow> parse_params (params_set p k v) rest)"
    by (rule parse_params.simps)
  also have "\<dots> =
      (case regex_exec t of None \<Rightarrow> p
       | Some (k, v, rest) \<Rightarrow> parse_params (params_set p k v) rest)"
    by (simp only: assms)
  also have "\<dots> = parse_params p t"
    by (rule parse_params.simps [symmetric])
  finally show ?thesis .
qed

lemma parse_params_skip_tail:
  \<open>parse_params p (''b|k1|ed25519",'' @ t) = parse_params p t\<close>
  by (rule parse_params_cong) (rule regex_exec_skip_tail)

lemma quoted_subscriber_content:
  \<open>authorization_header ''a"b'' ''k1'' c e sg =
     ''Signature '' @
     (''keyId'' @ ''="'' @ ''a'' @ ''"'' @
      (''b|k1|ed25519",'' @
       (''algorithm'' @ ''="'' @ ''ed25519'' @ ''"'' @
        '','' @ ''created'' @ ''="'' @ c @ ''"'' @
        '','' @ ''expires'' @ ''="'' @ e @ ''"'' @
        '','' @ ''headers'' @ ''="'' @ ''(created) (expires) digest'' @ ''"'' @
        '','' @ ''signature'' @ ''="'' @ sg @ ''"'' @ [])))\<close>
  by (simp add: authorization_header_def)

lemma parse_quoted_subscriber:
  assumes "c \<noteq> []" "CHR 0x22 \<notin> set c" "e \<noteq> []" "CHR 0x22 \<notin> set e"
    "sg \<noteq> []" "CHR 0x22 \<notin> set sg"
  shows \<open>parseAuthorizationHeader (authorization_header ''a"b'' ''k1'' c e sg) ''keyId'' =
           Some ''a''\<close>
proof -
  have a: "''ed25519'' \<noteq> []" "CHR 0x22 \<notin> set ''ed25519''"
    "''(created) (expires) digest'' \<noteq> []" "CHR 0x22 \<notin> set ''(created) (expires) digest''"
    "''keyId'' \<noteq> []" "''algorithm'' \<noteq> []" "''created'' \<noteq> []" "''expires'' \<noteq> []"
    "''headers'' \<noteq> []" "''signature'' \<noteq> []" "''a'' \<noteq> []" "CHR 0x22 \<notin> set ''a''"
    by simp_all
  have \<open>parse_params Map.empty
          (''keyId'' @ ''="'' @ ''a'' @ ''"'' @
           (''b|k1|ed25519",'' @
            (''algorithm'' @ ''="'' @ ''ed25519'' @ ''"'' @
             '','' @ ''created'' @ ''="'' @ c @ ''"'' @
             '','' @ ''expires'' @ ''="'' @ e @ ''"'' @
             '','' @ ''headers'' @ ''="'' @ ''(created) (expires) digest'' @ ''"'' @
             '','' @ ''signature'' @ ''="'' @ sg @ ''"'' @ []))) ''keyId'' = Some ''a''\<close>
    apply (subst parse_params_field [OF a(5) word_chars_of_names(1) a(11,12)])
    apply (subst parse_params_skip_tail)
    apply (subst parse_params_field [OF a(6) word_chars_of_names(2) a(1,2)])
    apply (subst parse_params_comma_field [OF a(7) word_chars_of_names(3) assms(1,2)])
    apply (subst parse_params_comma_field [OF a(8) word_chars_of_names(4) assms(3,4)])
    apply (subst parse_params_comma_field [OF a(9) word_chars_of_names(5) a(3,4)])
    apply (subst parse_params_comma_field [OF a(10) word_chars_of_names(6) assms(5,6)])
    apply (simp add: parse_params_Nil params_set_def)
    done
  then show ?thesis
    unfolding parseAuthorizationHeader_def quoted_subscriber_content by simp
qed

text \<open>
  Without the condition the claim fails: the values are written between double quotes
  with no escaping, so a subscriber id that contains a double quote is cut at it.
\<close>

theorem quoted_subscriber_not_recovered:
  \<open>\<exists>header env' signature.
     createAuthorizationHeader toy_primitives [1, 2, 3] 1000000 (Some (JObject []))
       [''SUBSCRIBER_ID'' \<mapsto> ''a"b''] = (Inr header, env')
     \<and> header = authorization_header ''a"b'' ''k1'' ''1000'' ''1030'' signature
     \<and> parseAuthorizationHeader header ''keyId'' = Some ''a''
     \<and> ''a'' \<noteq> ''a"b|k1|ed25519''\<close>
proof -
  let ?env = \<open>[''SUBSCRIBER_ID'' \<mapsto> ''a"b'']\<close>
  obtain header env' where c:
    "createAuthorizationHeader toy_primitives [1, 2, 3] 1000000 (Some (JObject [])) ?env =
       (Inr header, env')"
    using createAuthorizationHeader_generates
      [of ?env toy_primitives "[1, 2, 3]" 1000000 "JObject []"]
    by (auto simp: or_empty_def)
  from createAuthorizationHeader_shape [OF c]
  obtain sg m k where sg: "sign toy_primitives m k = Inr sg"
    and h: \<open>header = authorization_header ''a"b'' ''k1'' ''1000'' ''1030'' sg\<close>
    by (auto simp: env_or_def Number_toString_1000 simp del: Number_toString.simps)
  have n: "''1000'' \<noteq> []" "CHR 0x22 \<notin> set ''1000''" "''1030'' \<noteq> []" "CHR 0x22 \<notin> set ''1030''"
    by simp_all
  from parse_quoted_subscriber [OF n sign_result [OF sg]] c h show ?thesis
    by auto
qed

lemma regex_exec_skip_prefix: "regex_exec (''Signature '' @ t) = regex_exec t"
  by (simp add: regex_match_here_def is_word_char_def)

lemma parse_without_prefix:
  "parseAuthorizationHeader (''Signature '' @ x) = parseAuthorizationHeader x"
proof (cases "take 10 x = ''Signature ''")
  case False
  then show ?thesis by (simp add: parseAuthorizationHeader_def)
next
  case True
  then have x: "x = ''Signature '' @ drop 10 x"
    by (metis append_take_drop_id)
  have "parse_params Map.empty (''Signature '' @ drop 10 x) = parse_params Map.empty (drop 10 x)"
    by (rule parse_params_cong) (rule regex_exec_skip_prefix)
  with True x show ?thesis
    by (simp add: parseAuthorizationHeader_def)
qed


text \<open>
  C10. With \<open>DEV_MODE\<close> equal to \<open>true\<close> in the environment, \<open>verifyAuthorizationHeader\<close>
  returns \<open>{valid: true}\<close> for every request, at any time: any two requests, whatever
  their Authorization headers and bodies, get the same accepting verdict.
\<close>

theorem dev_mode_skips_verification:
  assumes "env ''DEV_MODE'' = Some ''true''"
  shows "verifyAuthorizationHeader prim env now_ms req = \<lparr>valid = True, error = None\<rparr>
         \<and> verifyAuthorizationHeader prim env now_ms req =
             verifyAuthorizationHeader prim env now_ms' req'"
  using assms by (simp add: verifyAuthorizationHeader_def)

lemma parseAuthorizationHeader_Nil: "parseAuthorizationHeader [] = Map.empty"
  by (simp add: parseAuthorizationHeader_def parse_params_Nil)

lemma parseInt_Nil: "parseInt [] = NaN"
  by (simp add: parseInt_def trim_start.simps whitespace_length_def)

text \<open>
  C4. With \<open>DEV_MODE\<close> other than \<open>true\<close>, for a request whose Authorization header carries
  non-empty \<open>keyId\<close>, \<open>signature\<close> and \<open>created\<close> fields and an \<open>expires\<close> field that
  \<open>parseInt\<close> reads as the number \<open>e\<close>: when \<open>e\<close> is before the current second the result
  is invalid with the error \<open>Authorization header expired\<close>, whatever the signature, the
  body and the configured key; when the current second is at most \<open>e\<close> the result is
  never that error.
\<close>

theorem expired_header_rejected:
  assumes dev: "env ''DEV_MODE'' \<noteq> Some ''true''"
    and hdr: "headers_authorization req = Some h"
    and keyId: "or_empty (parseAuthorizationHeader h ''keyId'') \<noteq> []"
    and sig: "or_empty (parseAuthorizationHeader h ''signature'') \<noteq> []"
    and created: "or_empty (parseAuthorizationHeader h ''created'') \<noteq> []"
    and expires: "parseInt (or_empty (parseAuthorizationHeader h ''expires'')) = Num e"
  shows "(e < now_ms div 1000 \<longrightarrow>
            verifyAuthorizationHeader prim env now_ms req =
              \<lparr>valid = False, error = Some ''Authorization header expired''\<rparr>)
         \<and> (now_ms div 1000 \<le> e \<longrightarrow>
            error (verifyAuthorizationHeader prim env now_ms req) \<noteq>
              Some ''Authorization header expired'')"
proof -
  have oe: "or_empty (Some h) = h"
    by (simp add: or_empty_def)
  from keyId have h: "h \<noteq> []"
    by (auto simp: or_empty_def parseAuthorizationHeader_Nil)
  from expires have ex: "or_empty (parseAuthorizationHeader h ''expires'') \<noteq> []"
    by (auto simp: parseInt_Nil)
  show ?thesis
    using dev hdr h keyId sig created ex expires
    by (auto simp: verifyAuthorizationHeader_def Let_def oe split: sum.splits)
qed


theorem expired_header_rejected_witness:
  \<open>verifyAuthorizationHeader toy_primitives Map.empty 2000000
     \<lparr>headers_authorization =
        Some ''Signature keyId="k",signature="AAAA",created="1",expires="1"'',
      req_body = Some (JObject []), wire_bytes = ''{}''\<rparr> =
     \<lparr>valid = False, error = Some ''Authorization header expired''\<rparr>
   \<and> error (verifyAuthorizationHeader toy_primitives Map.empty 1000
        \<lparr>headers_authorization =
           Some ''Signature keyId="k",signature="AAAA",created="1",expires="1"'',
         req_body = Some (JObject []), wire_bytes = ''{}''\<rparr>) \<noteq>
       Some ''Authorization header expired''\<close>
proof -
  let ?h = \<open>''Signature keyId="k",signature="AAAA",created="1",expires="1"''\<close>
  let ?req = "\<lparr>headers_authorization = Some ?h, req_body = Some (JObject []),
               wire_bytes = ''{}''\<rparr>"
  have dev: "(Map.empty :: env) ''DEV_MODE'' \<noteq> Some ''true''"
    by simp
  have hdr: "headers_authorization ?req = Some ?h"
    by simp
  have keyId: "or_empty (parseAuthorizationHeader ?h ''keyId'') \<noteq> []"
    by code_simp
  have sg: "or_empty (parseAuthorizationHeader ?h ''signature'') \<noteq> []"
    by code_simp
  have created: "or_empty (parseAuthorizationHeader ?h ''created'') \<noteq> []"
    by code_simp
  have expires: "parseInt (or_empty (parseAuthorizationHeader ?h ''expires'')) = Num 1"
    by code_simp
  from expired_header_rejected [OF dev hdr keyId sg created expires, of 2000000 toy_primitives]
    expired_header_rejected [OF dev hdr keyId sg created expires, of 1000 toy_primitives]
  show ?thesis by simp
qed

text \<open>
  Without the three other fields the claim fails: a header that carries only an
  \<open>expires\<close> in the past is rejected as malformed, before the expiry check.
\<close>

theorem expired_header_without_fields_malformed:
  \<open>parseInt (or_empty (parseAuthorizationHeader ''Signature expires="1"'' ''expires'')) = Num 1
   \<and> (1 :: int) < 2000000 div 1000
   \<and> verifyAuthorizationHeader toy_primitives Map.empty 2000000
        \<lparr>headers_authorization = Some ''Signature expires="1"'',
         req_body = Some (JObject []), wire_bytes = ''{}''\<rparr> =
       \<lparr>valid = False, error = Some ''Malformed Authorization header''\<rparr>\<close>
  by code_simp

theorem dev_mode_skips_verification_witness:
  \<open>verifyAuthorizationHeader toy_primitives [''DEV_MODE'' \<mapsto> ''true''] 2000000
     \<lparr>headers_authorization = None, req_body = None, wire_bytes = []\<rparr> =
     \<lparr>valid = True, error = None\<rparr>
   \<and> verifyAuthorizationHeader toy_primitives [''DEV_MODE'' \<mapsto> ''true''] 2000000
     \<lparr>headers_authorization = None, req_body = None, wire_bytes = []\<rparr> =
     verifyAuthorizationHeader toy_primitives [''DEV_MODE'' \<mapsto> ''true''] 0
       \<lparr>headers_authorization = Some ''Signature keyId="x",signature="forged",expires="1"'',
        req_body = Some (JObject []), wire_bytes = ''{}''\<rparr>\<close>
proof -
  have "[''DEV_MODE'' \<mapsto> ''true''] ''DEV_MODE'' = Some ''true''"
    by simp
  with dev_mode_skips_verification [of "[''DEV_MODE'' \<mapsto> ''true'']"] show ?thesis
    by simp
qed

section \<open>Properties of the digest on both sides\<close>





















section \<open>Properties of the subscription challenge\<close>





















end
